theory Spec2Isabelle
  imports Complex_Main
begin

section \<open>Errors raised by the simulation code\<close>

text \<open>
  The scripts have no error handling of their own: what can go wrong is an unhandled
  Python exception. Float division by zero raises \<open>ZeroDivisionError\<close>; pygame's
  \<open>Vector2.normalize\<close> raises \<open>ValueError\<close> on a vector of length zero.
\<close>

datatype py_error = ZeroDivisionError | ValueError

section \<open>Settings\<close>

text \<open>
  The \<open>Settings\<close> dataclass of the style guide. The numeric type of the physics
  quantities is a parameter \<open>'a\<close>: the integration step only adds and multiplies, so
  what is proved about its structure holds for every arithmetic, and the algebraic
  laws a theorem needs are named by its sort constraint. Where a law of exact
  arithmetic is needed, Python's floats are idealised as exact numbers: rounding is
  outside the model.
\<close>

record 'a Settings =
  SCREEN_WIDTH :: int
  SCREEN_HEIGHT :: int
  OBJECT_SIZE :: int
  OBJECT_COLOR :: "int \<times> int \<times> int"
  GRAVITY :: 'a
  MASS :: 'a
  BACKGROUND_COLOR :: "int \<times> int \<times> int"
  FPS :: int
  TIMESCALE :: int
  d_t :: 'a

text \<open>
  \<open>__post_init__\<close>: \<open>self.d_t = self.TIMESCALE / self.FPS\<close>, a true division of two
  integers, which raises when \<open>FPS\<close> is zero.
\<close>

definition post_init :: "real Settings \<Rightarrow> py_error + real Settings" where
  "post_init s =
     (if FPS s = 0 then Inl ZeroDivisionError
      else Inr (s\<lparr>d_t := real_of_int (TIMESCALE s) / real_of_int (FPS s)\<rparr>))"

text \<open>The field defaults of the dataclass, with \<open>d_t\<close> as \<open>__post_init__\<close> leaves it.\<close>

definition Settings_default :: "real Settings" where
  "Settings_default =
     \<lparr>SCREEN_WIDTH = 600, SCREEN_HEIGHT = 600, OBJECT_SIZE = 50,
      OBJECT_COLOR = (255, 0, 0), GRAVITY = 60, MASS = 2,
      BACKGROUND_COLOR = (0, 0, 0), FPS = 60, TIMESCALE = 1, d_t = 1 / 60\<rparr>"

section \<open>Body (component-based style)\<close>

text \<open>
  The fields \<open>x\<close>, \<open>y\<close> and \<open>size\<close> of the class are \<open>x_pos\<close>, \<open>y_pos\<close> and
  \<open>size_px\<close> here (\<open>size\<close> is a constant of HOL; \<open>x\<close> and \<open>y\<close> are kept free for
  variables). Every attribute that \<open>__init__\<close> creates is a field of the record.
\<close>

record 'a Body =
  x_pos :: 'a
  y_pos :: 'a
  v_x :: 'a
  v_y :: 'a
  a_x :: 'a
  a_y :: 'a
  mass :: 'a
  settings :: "'a Settings"
  size_px :: int

text \<open>
  \<open>__init__(self, x, y, mass, settings, v_x=0.0, v_y=0.0)\<close>: an optional argument
  that the caller leaves out is \<open>None\<close> and takes its default.
\<close>

definition Body_init ::
  "'a \<Rightarrow> 'a \<Rightarrow> 'a \<Rightarrow> 'a Settings \<Rightarrow> 'a option \<Rightarrow> 'a option \<Rightarrow> ('a::zero) Body" where
  "Body_init x0 y0 m s vx0 vy0 =
     \<lparr>x_pos = x0, y_pos = y0,
      v_x = (case vx0 of None \<Rightarrow> 0 | Some v \<Rightarrow> v),
      v_y = (case vy0 of None \<Rightarrow> 0 | Some v \<Rightarrow> v),
      a_x = 0, a_y = 0,
      mass = m, settings = s,
      size_px = OBJECT_SIZE s\<rparr>"

text \<open>
  \<open>update(self)\<close>, one assignment of the method per line, in the method's order: each
  line reads the object as the lines before it left it.
\<close>

definition Body_update :: "('a::{plus,times,zero}) Body \<Rightarrow> 'a Body" where
  "Body_update b =
     (let b1 = b\<lparr>v_x := v_x b + a_x b * d_t (settings b)\<rparr>;
          b2 = b1\<lparr>v_y := v_y b1 + a_y b1 * d_t (settings b1)\<rparr>;
          b3 = b2\<lparr>x_pos := x_pos b2 + v_x b2 * d_t (settings b2)\<rparr>;
          b4 = b3\<lparr>y_pos := y_pos b3 + v_y b3 * d_t (settings b3)\<rparr>;
          b5 = b4\<lparr>a_x := 0\<rparr>
      in b5\<lparr>a_y := 0\<rparr>)"

text \<open>
  The standard physics loop of the style guide applies the forces of the frame, which
  set the acceleration, and then calls \<open>body.update()\<close>. The guide documents
  \<open>apply_gravity(gravity)\<close> as setting \<open>self.a_y = gravity\<close>;
  \<open>apply_acceleration\<close> sets both components the same way.
\<close>

definition apply_gravity :: "'a \<Rightarrow> 'a Body \<Rightarrow> 'a Body" where
  "apply_gravity gravity b = b\<lparr>a_y := gravity\<rparr>"

definition apply_acceleration :: "'a \<Rightarrow> 'a \<Rightarrow> 'a Body \<Rightarrow> 'a Body" where
  "apply_acceleration ax ay b = b\<lparr>a_x := ax, a_y := ay\<rparr>"

text \<open>\<open>n\<close> frames of the loop with the acceleration held at \<open>(ax, ay)\<close>.\<close>

fun run_held :: "nat \<Rightarrow> 'a \<Rightarrow> 'a \<Rightarrow> ('a::{plus,times,zero}) Body \<Rightarrow> 'a Body" where
  "run_held 0 ax ay b = b"
| "run_held (Suc n) ax ay b = run_held n ax ay (Body_update (apply_acceleration ax ay b))"

text \<open>
  Modelled from the spec: the force methods of the lesson programs are not among the
  sources. In the spec every active force of a frame sets or accumulates into the
  acceleration before the integration step. A force that accumulates adds its share
  to the acceleration already there; a frame applies a list of such contributions and
  then integrates with \<open>Body.update\<close>; a simulation is a list of frames.
\<close>

definition add_acceleration :: "'a \<times> 'a \<Rightarrow> ('a::plus) Body \<Rightarrow> 'a Body" where
  "add_acceleration f b = b\<lparr>a_x := a_x b + fst f, a_y := a_y b + snd f\<rparr>"

definition frame :: "('a \<times> 'a) list \<Rightarrow> ('a::{plus,times,zero}) Body \<Rightarrow> 'a Body" where
  "frame fs b = Body_update (fold add_acceleration fs b)"

fun simulate :: "('a \<times> 'a) list list \<Rightarrow> ('a::{plus,times,zero}) Body \<Rightarrow> 'a Body" where
  "simulate [] b = b"
| "simulate (fs # fss) b = simulate fss (frame fs b)"

definition acc_reset :: "('a::zero) Body \<Rightarrow> bool" where
  "acc_reset b = (a_x b = 0 \<and> a_y b = 0)"

section \<open>Boundary collision\<close>

text \<open>
  Modelled from the spec: the boundary check of the lesson programs (the bouncing
  ball and player scripts) is not among the sources; the style guide only names the
  pattern (return whether a collision occurred, correct the position, update the
  velocity) and the gravity lesson only hints that the x velocity is the opposite
  after the bounce. The definitions follow the spec's boundary policy: when the
  position has crossed a boundary, the velocity component perpendicular to it is
  negated and the position is set to the boundary; otherwise nothing changes.
\<close>

definition check_wall_collision ::
  "'a \<Rightarrow> 'a \<Rightarrow> ('a::{linorder,uminus}) Body \<Rightarrow> bool \<times> 'a Body" where
  "check_wall_collision x_min x_max b =
     (if x_pos b < x_min then (True, b\<lparr>x_pos := x_min, v_x := - v_x b\<rparr>)
      else if x_max < x_pos b then (True, b\<lparr>x_pos := x_max, v_x := - v_x b\<rparr>)
      else (False, b))"

definition check_ground_collision ::
  "'a \<Rightarrow> 'a \<Rightarrow> ('a::{linorder,uminus}) Body \<Rightarrow> bool \<times> 'a Body" where
  "check_ground_collision y_min y_max b =
     (if y_pos b < y_min then (True, b\<lparr>y_pos := y_min, v_y := - v_y b\<rparr>)
      else if y_max < y_pos b then (True, b\<lparr>y_pos := y_max, v_y := - v_y b\<rparr>)
      else (False, b))"

section \<open>Vectors\<close>

text \<open>
  The orbit scripts keep position and velocity in \<open>pygame.math.Vector2\<close>. The
  operations the scripts call are modelled over the reals: componentwise
  subtraction and addition, multiplication and division by a scalar,
  \<open>distance_squared_to\<close>, \<open>length\<close> and \<open>normalize\<close>. Division by the scalar zero
  and normalising the zero vector raise.
\<close>

datatype Vector2 = Vector2 (vec_x: real) (vec_y: real)

definition vec_add :: "Vector2 \<Rightarrow> Vector2 \<Rightarrow> Vector2" where
  "vec_add u v = Vector2 (vec_x u + vec_x v) (vec_y u + vec_y v)"

definition vec_sub :: "Vector2 \<Rightarrow> Vector2 \<Rightarrow> Vector2" where
  "vec_sub u v = Vector2 (vec_x u - vec_x v) (vec_y u - vec_y v)"

definition vec_neg :: "Vector2 \<Rightarrow> Vector2" where
  "vec_neg v = Vector2 (- vec_x v) (- vec_y v)"

definition vec_mul :: "Vector2 \<Rightarrow> real \<Rightarrow> Vector2" where
  "vec_mul v k = Vector2 (vec_x v * k) (vec_y v * k)"

definition vec_truediv :: "Vector2 \<Rightarrow> real \<Rightarrow> py_error + Vector2" where
  "vec_truediv v k =
     (if k = 0 then Inl ZeroDivisionError else Inr (Vector2 (vec_x v / k) (vec_y v / k)))"

definition distance_squared_to :: "Vector2 \<Rightarrow> Vector2 \<Rightarrow> real" where
  "distance_squared_to u v =
     (vec_x v - vec_x u) * (vec_x v - vec_x u) + (vec_y v - vec_y u) * (vec_y v - vec_y u)"

definition vec_length :: "Vector2 \<Rightarrow> real" where
  "vec_length v = sqrt (vec_x v * vec_x v + vec_y v * vec_y v)"

definition distance_to :: "Vector2 \<Rightarrow> Vector2 \<Rightarrow> real" where
  "distance_to u v = sqrt (distance_squared_to u v)"

definition normalize_vec :: "Vector2 \<Rightarrow> py_error + Vector2" where
  "normalize_vec v =
     (let l = vec_length v
      in if l = 0 then Inl ValueError else Inr (Vector2 (vec_x v / l) (vec_y v / l)))"

section \<open>Celestial bodies (vector style)\<close>

text \<open>
  The body of the custom-physics orbit script: \<open>self.pos\<close>, \<open>self.vel\<close> and
  \<open>self.mass\<close> (here \<open>mass_cb\<close>, as \<open>mass\<close> is the field of \<open>Body\<close>). The
  gravitational constant \<open>G\<close> and the timestep \<open>d_T\<close> are globals of the script and
  parameters here; \<open>self.sun\<close> refers to another body, and is passed as an argument.
\<close>

record CelestialBody =
  pos :: Vector2
  vel :: Vector2
  mass_cb :: real

text \<open>
  \<open>force_vec_due_to(self, other)\<close>, line by line: \<open>r2\<close>; the division by \<open>r2\<close>, which
  raises when \<open>r2\<close> is zero; then the normalised difference times \<open>f_g\<close>.
\<close>

definition force_vec_due_to :: "real \<Rightarrow> CelestialBody \<Rightarrow> CelestialBody \<Rightarrow> py_error + Vector2" where
  "force_vec_due_to G self other =
     (let r2 = distance_squared_to (pos self) (pos other)
      in if r2 = 0 then Inl ZeroDivisionError
         else
           (let f_g = (G * mass_cb self * mass_cb other) / r2
            in case normalize_vec (vec_sub (pos other) (pos self)) of
                 Inl e \<Rightarrow> Inl e
               | Inr u \<Rightarrow> Inr (vec_mul u f_g)))"

text \<open>
  \<open>update(self)\<close> of the orbit script: the force due to the sun, \<open>a = f / self.mass\<close>,
  then velocity and position in this order. An exception leaves the method at once.
\<close>

definition CelestialBody_update ::
  "real \<Rightarrow> real \<Rightarrow> CelestialBody \<Rightarrow> CelestialBody \<Rightarrow> py_error + CelestialBody" where
  "CelestialBody_update G d_T sun self =
     (case force_vec_due_to G self sun of
        Inl e \<Rightarrow> Inl e
      | Inr f \<Rightarrow>
          (case vec_truediv f (mass_cb self) of
             Inl e \<Rightarrow> Inl e
           | Inr a \<Rightarrow>
               (let s1 = self\<lparr>vel := vec_add (vel self) (vec_mul a d_T)\<rparr>
                in Inr (s1\<lparr>pos := vec_add (pos s1) (vec_mul (vel s1) d_T)\<rparr>))))"

section \<open>Facts about the settings and the integration step\<close>

lemma post_init_default: "post_init Settings_default = Inr Settings_default"
  by (simp add: post_init_def Settings_default_def)

lemma post_init_no_frames: "FPS s = 0 \<Longrightarrow> post_init s = Inl ZeroDivisionError"
  by (simp add: post_init_def)

lemma Body_update_eq:
  "Body_update b =
     b\<lparr>x_pos := x_pos b + (v_x b + a_x b * d_t (settings b)) * d_t (settings b),
       y_pos := y_pos b + (v_y b + a_y b * d_t (settings b)) * d_t (settings b),
       v_x := v_x b + a_x b * d_t (settings b),
       v_y := v_y b + a_y b * d_t (settings b),
       a_x := 0, a_y := 0\<rparr>"
  by (simp add: Body_update_def Let_def)

text \<open>
  The step is not the explicit Euler step, which would advance the position by the
  old velocity: from rest, with acceleration 60 and the default timestep, the body
  moves in the first step already.
\<close>

lemma Body_update_not_explicit_euler:
  "y_pos (Body_update (apply_gravity 60 (Body_init 0 0 2 Settings_default None None)))
     = 1 / 60
   \<and> y_pos (apply_gravity 60 (Body_init 0 0 2 Settings_default None None))
     + v_y (apply_gravity 60 (Body_init 0 0 2 Settings_default None None))
       * d_t (settings (apply_gravity 60 (Body_init 0 0 2 Settings_default None None))) = 0"
  by (simp add: Body_update_eq apply_gravity_def Body_init_def Settings_default_def)

lemma apply_gravity_reset:
  "a_x b = 0 \<Longrightarrow> apply_gravity g b = apply_acceleration 0 g b"
  by (simp add: apply_gravity_def apply_acceleration_def)

lemma fold_add_acceleration:
  fixes b :: "('a::monoid_add) Body"
  shows "fold add_acceleration fs b =
         b\<lparr>a_x := a_x b + sum_list (map fst fs), a_y := a_y b + sum_list (map snd fs)\<rparr>"
proof (induction fs arbitrary: b)
  case Nil
  show ?case by simp
next
  case (Cons f fs)
  have "fold add_acceleration (f # fs) b = fold add_acceleration fs (add_acceleration f b)"
    by simp
  also have "\<dots> = (add_acceleration f b)
      \<lparr>a_x := a_x (add_acceleration f b) + sum_list (map fst fs),
       a_y := a_y (add_acceleration f b) + sum_list (map snd fs)\<rparr>"
    by (rule Cons.IH)
  also have "\<dots> = b\<lparr>a_x := a_x b + sum_list (map fst (f # fs)),
                       a_y := a_y b + sum_list (map snd (f # fs))\<rparr>"
    by (simp add: add_acceleration_def add.assoc)
  finally show ?case .
qed

lemma frame_acc_reset: "acc_reset (frame fs b)"
  by (simp add: acc_reset_def frame_def Body_update_eq)

lemma simulate_acc_reset: "acc_reset b \<Longrightarrow> acc_reset (simulate fss b)"
  by (induction fss arbitrary: b) (simp_all add: frame_acc_reset)

lemma simulate_append: "simulate (fss @ gss) b = simulate gss (simulate fss b)"
  by (induction fss arbitrary: b) simp_all

lemma frame_settings:
  fixes b :: "('a::{monoid_add, times}) Body"
  shows "settings (frame fs b) = settings b"
  by (simp add: frame_def Body_update_eq fold_add_acceleration)

lemma simulate_settings:
  fixes b :: "('a::{monoid_add, times}) Body"
  shows "settings (simulate fss b) = settings b"
  by (induction fss arbitrary: b) (simp_all add: frame_settings)

lemma frame_velocity:
  fixes b :: "('a::{monoid_add, times}) Body"
  assumes "acc_reset b"
  shows "v_x (frame fs b) = v_x b + sum_list (map fst fs) * d_t (settings b)"
    and "v_y (frame fs b) = v_y b + sum_list (map snd fs) * d_t (settings b)"
  using assms by (simp_all add: frame_def Body_update_eq fold_add_acceleration acc_reset_def)

section \<open>Facts about vectors and the gravitational force\<close>

lemma distance_squared_to_pos:
  assumes "u \<noteq> v"
  shows "0 < distance_squared_to u v"
proof -
  have "vec_x v - vec_x u \<noteq> 0 \<or> vec_y v - vec_y u \<noteq> 0"
    using assms by (cases u; cases v) auto
  then show ?thesis
    unfolding distance_squared_to_def by (simp only: sum_squares_gt_zero_iff)
qed

lemma distance_squared_to_same: "distance_squared_to u u = 0"
  by (simp add: distance_squared_to_def)

lemma distance_squared_to_sym: "distance_squared_to u v = distance_squared_to v u"
  by (simp add: distance_squared_to_def algebra_simps)

lemma vec_length_sub: "vec_length (vec_sub v u) = distance_to u v"
  by (simp add: vec_length_def vec_sub_def distance_to_def distance_squared_to_def)

lemma distance_to_pos: "u \<noteq> v \<Longrightarrow> 0 < distance_to u v"
  by (simp add: distance_to_def distance_squared_to_pos)

lemma distance_to_sym: "distance_to u v = distance_to v u"
  by (simp add: distance_to_def distance_squared_to_sym [of u v])

lemma distance_to_power2: "(distance_to u v)\<^sup>2 = distance_squared_to u v"
proof -
  have "0 \<le> distance_squared_to u v"
    by (simp add: distance_squared_to_def)
  then show ?thesis
    by (simp add: distance_to_def)
qed

lemma force_vec_due_to_distinct:
  assumes "pos a \<noteq> pos b"
  shows "force_vec_due_to G a b =
           Inr (vec_mul (Vector2 (vec_x (vec_sub (pos b) (pos a)) / distance_to (pos a) (pos b))
                                 (vec_y (vec_sub (pos b) (pos a)) / distance_to (pos a) (pos b)))
                        (G * mass_cb a * mass_cb b / (distance_to (pos a) (pos b))\<^sup>2))"
proof -
  have r2: "distance_squared_to (pos a) (pos b) \<noteq> 0"
    using distance_squared_to_pos [OF assms] by simp
  have r: "distance_to (pos a) (pos b) \<noteq> 0"
    using distance_to_pos [OF assms] by simp
  show ?thesis
    by (simp add: force_vec_due_to_def normalize_vec_def Let_def r2 r vec_length_sub
        distance_to_power2)
qed

lemma force_vec_due_to_coincident:
  assumes "pos a = pos b"
  shows "force_vec_due_to G a b = Inl ZeroDivisionError"
  by (simp add: force_vec_due_to_def assms distance_squared_to_same)

lemma unit_length:
  assumes "u \<noteq> v"
  shows "vec_length (Vector2 (vec_x (vec_sub v u) / distance_to u v)
                              (vec_y (vec_sub v u) / distance_to u v)) = 1"
proof -
  let ?r = "distance_to u v"
  let ?dx = "vec_x v - vec_x u" and ?dy = "vec_y v - vec_y u"
  have r: "0 < ?r" using assms by (rule distance_to_pos)
  have "(?dx / ?r) * (?dx / ?r) + (?dy / ?r) * (?dy / ?r) = (?dx * ?dx + ?dy * ?dy) / ?r\<^sup>2"
    by (simp add: power2_eq_square add_divide_distrib)
  also have "\<dots> = ?r\<^sup>2 / ?r\<^sup>2"
    by (simp add: distance_to_power2 distance_squared_to_def)
  also have "\<dots> = 1"
    using r by simp
  finally show ?thesis
    by (simp add: vec_length_def vec_sub_def)
qed

lemma vec_length_mul: "vec_length (vec_mul u k) = vec_length u * \<bar>k\<bar>"
proof -
  have "vec_x u * k * (vec_x u * k) + vec_y u * k * (vec_y u * k)
        = (vec_x u * vec_x u + vec_y u * vec_y u) * k\<^sup>2"
    by (simp add: power2_eq_square algebra_simps)
  then show ?thesis
    by (simp add: vec_length_def vec_mul_def real_sqrt_mult)
qed

lemma swap_component:
  fixes p q r k :: real
  shows "(p - q) / r * k = - ((q - p) / r * k)"
  by (metis minus_diff_eq minus_divide_left mult_minus_left)

text \<open>The two bodies of the examples: mass 2 at the origin, mass 3 at \<open>(2, 0)\<close>.\<close>

lemma force_example:
  "force_vec_due_to 1 \<lparr>pos = Vector2 0 0, vel = Vector2 0 0, mass_cb = 2\<rparr>
       \<lparr>pos = Vector2 2 0, vel = Vector2 0 0, mass_cb = 3\<rparr> = Inr (Vector2 (3 / 2) 0)"
proof -
  have "distance_to (Vector2 0 0) (Vector2 2 0) = 2"
    by (simp add: distance_to_def distance_squared_to_def)
  then show ?thesis
    by (simp add: force_vec_due_to_distinct vec_mul_def vec_sub_def)
qed

section \<open>The claims\<close>

text \<open>
  C1. One call of \<open>Body.update\<close> is a semi-implicit Euler step: the new velocity is
  the old velocity plus acceleration times \<open>d_t\<close>; the new position is the old position
  plus the new (already updated) velocity times \<open>d_t\<close>, not the old velocity; and the
  acceleration is zero afterwards. This holds for every state and every timestep, in
  any arithmetic.
\<close>

theorem Body_update_semi_implicit_euler:
  fixes b :: "('a::{plus,times,zero}) Body"
  shows "v_x (Body_update b) = v_x b + a_x b * d_t (settings b)
       \<and> v_y (Body_update b) = v_y b + a_y b * d_t (settings b)
       \<and> x_pos (Body_update b) = x_pos b + v_x (Body_update b) * d_t (settings b)
       \<and> y_pos (Body_update b) = y_pos b + v_y (Body_update b) * d_t (settings b)
       \<and> x_pos (Body_update b) = x_pos b + (v_x b + a_x b * d_t (settings b)) * d_t (settings b)
       \<and> y_pos (Body_update b) = y_pos b + (v_y b + a_y b * d_t (settings b)) * d_t (settings b)
       \<and> a_x (Body_update b) = 0
       \<and> a_y (Body_update b) = 0"
  by (simp add: Body_update_eq)

text \<open>
  C2. For two bodies at distinct positions, at distance \<open>r > 0\<close>, \<open>force_vec_due_to\<close>
  returns the vector \<open>u * (G * m1 * m2 / r\<^sup>2)\<close>, where \<open>u\<close> is the unit vector from
  the attracted body towards the other one (\<open>u\<close> has length one and \<open>u * r\<close> is the
  difference of the positions). Its length is \<open>\<bar>G * m1 * m2\<bar> / r\<^sup>2\<close>, which is
  \<open>G * m1 * m2 / r\<^sup>2\<close> for the non-negative constant and masses of the data model.
\<close>

theorem force_vec_due_to_newton:
  assumes "pos a \<noteq> pos b"
  shows "0 < distance_to (pos a) (pos b)
       \<and> (\<exists>u f. force_vec_due_to G a b = Inr f
            \<and> f = vec_mul u (G * mass_cb a * mass_cb b / (distance_to (pos a) (pos b))\<^sup>2)
            \<and> vec_length u = 1
            \<and> vec_mul u (distance_to (pos a) (pos b)) = vec_sub (pos b) (pos a)
            \<and> vec_length f = \<bar>G * mass_cb a * mass_cb b\<bar> / (distance_to (pos a) (pos b))\<^sup>2
            \<and> (0 \<le> G * mass_cb a * mass_cb b \<longrightarrow>
                 vec_length f = G * mass_cb a * mass_cb b / (distance_to (pos a) (pos b))\<^sup>2))"
proof -
  let ?r = "distance_to (pos a) (pos b)"
  let ?d = "vec_sub (pos b) (pos a)"
  let ?u = "Vector2 (vec_x ?d / ?r) (vec_y ?d / ?r)"
  let ?k = "G * mass_cb a * mass_cb b / ?r\<^sup>2"
  have r: "0 < ?r" using assms by (rule distance_to_pos)
  have f: "force_vec_due_to G a b = Inr (vec_mul ?u ?k)"
    using assms by (rule force_vec_due_to_distinct)
  have u1: "vec_length ?u = 1"
    using assms by (rule unit_length)
  have dir: "vec_mul ?u ?r = ?d"
    using r by (simp add: vec_mul_def)
  have len: "vec_length (vec_mul ?u ?k) = \<bar>G * mass_cb a * mass_cb b\<bar> / ?r\<^sup>2"
    by (simp add: vec_length_mul u1)
  from r f u1 dir len show ?thesis
    by auto
qed

text \<open>
  The theorem at the Earth and the Sun of the spec's test: \<open>m1 = 5.972e24\<close>,
  \<open>m2 = 1.989e30\<close>, \<open>r = 1.496e11\<close>, \<open>G = 6.674e-11\<close>.
\<close>

theorem force_vec_due_to_newton_witness:
  "pos \<lparr>pos = Vector2 0 0, vel = Vector2 0 0, mass_cb = 5972 * 10 ^ 21\<rparr>
     \<noteq> pos \<lparr>pos = Vector2 (1496 * 10 ^ 8) 0, vel = Vector2 0 0, mass_cb = 1989 * 10 ^ 27\<rparr>
   \<and> (\<exists>f. force_vec_due_to (6674 / 10 ^ 14)
             \<lparr>pos = Vector2 0 0, vel = Vector2 0 0, mass_cb = 5972 * 10 ^ 21\<rparr>
             \<lparr>pos = Vector2 (1496 * 10 ^ 8) 0, vel = Vector2 0 0, mass_cb = 1989 * 10 ^ 27\<rparr>
           = Inr f
         \<and> vec_length f
           = (6674 / 10 ^ 14) * (5972 * 10 ^ 21) * (1989 * 10 ^ 27) / (1496 * 10 ^ 8)\<^sup>2
         \<and> vec_x f = vec_length f \<and> vec_y f = 0)"
proof -
  let ?e = "\<lparr>pos = Vector2 0 0, vel = Vector2 0 0, mass_cb = 5972 * 10 ^ 21\<rparr>"
  let ?s = "\<lparr>pos = Vector2 (1496 * 10 ^ 8) 0, vel = Vector2 0 0, mass_cb = 1989 * 10 ^ 27\<rparr>"
  let ?G = "6674 / 10 ^ 14 :: real"
  have h: "pos ?e \<noteq> pos ?s" by simp
  have "distance_to (pos ?e) (pos ?s) = sqrt ((1496 * 10 ^ 8) * (1496 * 10 ^ 8))"
    by (simp add: distance_to_def distance_squared_to_def)
  also have "\<dots> = \<bar>1496 * 10 ^ 8\<bar>"
    by (rule real_sqrt_abs2)
  finally have r: "distance_to (pos ?e) (pos ?s) = 1496 * 10 ^ 8" by simp
  from force_vec_due_to_newton [OF h, of ?G] obtain u f where
    f: "force_vec_due_to ?G ?e ?s = Inr f"
    and fu: "f = vec_mul u (?G * mass_cb ?e * mass_cb ?s / (distance_to (pos ?e) (pos ?s))\<^sup>2)"
    and dir: "vec_mul u (distance_to (pos ?e) (pos ?s)) = vec_sub (pos ?s) (pos ?e)"
    and len: "0 \<le> ?G * mass_cb ?e * mass_cb ?s \<longrightarrow>
       vec_length f = ?G * mass_cb ?e * mass_cb ?s / (distance_to (pos ?e) (pos ?s))\<^sup>2"
    by blast
  have u: "u = Vector2 1 0"
    using dir unfolding r by (cases u) (simp add: vec_mul_def vec_sub_def)
  have len': "vec_length f = ?G * (5972 * 10 ^ 21) * (1989 * 10 ^ 27) / (1496 * 10 ^ 8)\<^sup>2"
    using len unfolding r by simp
  have "vec_x f = vec_length f" "vec_y f = 0"
    unfolding len' unfolding fu u r by (simp_all add: vec_mul_def)
  with h f len' show ?thesis by blast
qed

text \<open>
  C3. Every call of \<open>Body.update\<close> ends with the acceleration at zero, whatever it
  was before. So the reset state is an invariant of frames and of whole simulations,
  and the velocity change of any frame is the sum of the contributions applied in that
  frame times \<open>d_t\<close>: nothing of earlier frames is carried over.
\<close>

theorem acceleration_reset_each_frame:
  fixes b :: "('a::semiring_0) Body"
  shows "a_x (Body_update b) = 0 \<and> a_y (Body_update b) = 0
       \<and> acc_reset (Body_update b)
       \<and> acc_reset (frame fs b)
       \<and> (acc_reset b \<longrightarrow> acc_reset (simulate fss b))
       \<and> (acc_reset b \<longrightarrow>
            v_x (simulate (fss @ [fs]) b) =
              v_x (simulate fss b) + sum_list (map fst fs) * d_t (settings b)
          \<and> v_y (simulate (fss @ [fs]) b) =
              v_y (simulate fss b) + sum_list (map snd fs) * d_t (settings b))"
proof -
  have reset: "acc_reset (Body_update b)"
    by (simp add: acc_reset_def Body_update_eq)
  have last_frame: "v_x (simulate (fss @ [fs]) b) =
              v_x (simulate fss b) + sum_list (map fst fs) * d_t (settings b)
          \<and> v_y (simulate (fss @ [fs]) b) =
              v_y (simulate fss b) + sum_list (map snd fs) * d_t (settings b)"
    if "acc_reset b"
  proof -
    have "acc_reset (simulate fss b)"
      using that by (rule simulate_acc_reset)
    then show ?thesis
      by (simp add: simulate_append frame_velocity simulate_settings)
  qed
  from reset last_frame show ?thesis
    by (simp add: frame_acc_reset simulate_acc_reset acc_reset_def [of "Body_update b"])
qed

text \<open>
  A fresh body under gravity 60 for one frame, then two contributions in the next
  frame: the second frame adds \<open>(0 + 60) / 60\<close> and \<open>(60 + 60) / 60\<close> only.
\<close>

theorem acceleration_reset_each_frame_witness:
  "acc_reset (Body_init 0 0 2 Settings_default None None)
   \<and> acc_reset (simulate [[(0, 60)]] (Body_init 0 0 2 Settings_default None None))
   \<and> v_x (simulate ([[(0, 60)]] @ [[(0, 60), (60, 60)]])
            (Body_init 0 0 2 Settings_default None None)) = 1
   \<and> v_y (simulate ([[(0, 60)]] @ [[(0, 60), (60, 60)]])
            (Body_init 0 0 2 Settings_default None None)) = 3"
proof -
  let ?b = "Body_init 0 0 2 Settings_default None None"
  have h: "acc_reset ?b"
    by (simp add: acc_reset_def Body_init_def)
  have s: "d_t (settings ?b) = 1 / 60"
    by (simp add: Body_init_def Settings_default_def)
  have one: "v_x (frame [(0, 60)] ?b) = 0" "v_y (frame [(0, 60)] ?b) = 1"
    by (simp_all add: frame_velocity h s) (simp_all add: Body_init_def)
  show ?thesis
    using h acceleration_reset_each_frame [of ?b "[(0, 60), (60, 60)]" "[[(0, 60)]]"]
    by (simp add: one s)
qed

text \<open>
  C4. The boundary check is an elastic bounce: when the position has crossed a wall,
  the velocity component perpendicular to the wall is negated and the position is set
  to the wall, and nothing else of the body changes; an incoming \<open>v_x = 5\<close> at
  \<open>x_max\<close> becomes \<open>-5\<close>. Inside the boundaries the body is left as it is. The check
  reads the current state only and records nothing: checking again right after a
  bounce reports no collision and changes nothing. The same holds for the floor and
  the ceiling with \<open>y_pos\<close> and \<open>v_y\<close>.
\<close>

theorem boundary_bounce:
  fixes b :: "('a::linordered_idom) Body"
  assumes "x_min \<le> x_max" and "y_min \<le> y_max"
  shows "(x_max < x_pos b \<longrightarrow>
            check_wall_collision x_min x_max b = (True, b\<lparr>x_pos := x_max, v_x := - v_x b\<rparr>))
       \<and> (x_pos b < x_min \<longrightarrow>
            check_wall_collision x_min x_max b = (True, b\<lparr>x_pos := x_min, v_x := - v_x b\<rparr>))
       \<and> (x_min \<le> x_pos b \<and> x_pos b \<le> x_max \<longrightarrow>
            check_wall_collision x_min x_max b = (False, b))
       \<and> (x_max < x_pos b \<and> v_x b = 5 \<longrightarrow>
            v_x (snd (check_wall_collision x_min x_max b)) = - 5
          \<and> x_pos (snd (check_wall_collision x_min x_max b)) = x_max)
       \<and> check_wall_collision x_min x_max (snd (check_wall_collision x_min x_max b))
            = (False, snd (check_wall_collision x_min x_max b))
       \<and> (y_max < y_pos b \<longrightarrow>
            check_ground_collision y_min y_max b = (True, b\<lparr>y_pos := y_max, v_y := - v_y b\<rparr>))
       \<and> (y_pos b < y_min \<longrightarrow>
            check_ground_collision y_min y_max b = (True, b\<lparr>y_pos := y_min, v_y := - v_y b\<rparr>))
       \<and> (y_min \<le> y_pos b \<and> y_pos b \<le> y_max \<longrightarrow>
            check_ground_collision y_min y_max b = (False, b))
       \<and> check_ground_collision y_min y_max (snd (check_ground_collision y_min y_max b))
            = (False, snd (check_ground_collision y_min y_max b))"
proof -
  have wall: "check_wall_collision x_min x_max (snd (check_wall_collision x_min x_max b))
            = (False, snd (check_wall_collision x_min x_max b))"
    using assms(1) by (simp add: check_wall_collision_def)
  have ground: "check_ground_collision y_min y_max (snd (check_ground_collision y_min y_max b))
            = (False, snd (check_ground_collision y_min y_max b))"
    using assms(2) by (simp add: check_ground_collision_def)
  have x_cases: "(x_max < x_pos b \<longrightarrow>
            check_wall_collision x_min x_max b = (True, b\<lparr>x_pos := x_max, v_x := - v_x b\<rparr>))
       \<and> (x_pos b < x_min \<longrightarrow>
            check_wall_collision x_min x_max b = (True, b\<lparr>x_pos := x_min, v_x := - v_x b\<rparr>))
       \<and> (x_min \<le> x_pos b \<and> x_pos b \<le> x_max \<longrightarrow>
            check_wall_collision x_min x_max b = (False, b))"
    using assms(1) by (auto simp: check_wall_collision_def)
  have y_cases: "(y_max < y_pos b \<longrightarrow>
            check_ground_collision y_min y_max b = (True, b\<lparr>y_pos := y_max, v_y := - v_y b\<rparr>))
       \<and> (y_pos b < y_min \<longrightarrow>
            check_ground_collision y_min y_max b = (True, b\<lparr>y_pos := y_min, v_y := - v_y b\<rparr>))
       \<and> (y_min \<le> y_pos b \<and> y_pos b \<le> y_max \<longrightarrow>
            check_ground_collision y_min y_max b = (False, b))"
    using assms(2) by (auto simp: check_ground_collision_def)
  from x_cases have five: "x_max < x_pos b \<and> v_x b = 5 \<longrightarrow>
            v_x (snd (check_wall_collision x_min x_max b)) = - 5
          \<and> x_pos (snd (check_wall_collision x_min x_max b)) = x_max"
    by simp
  from x_cases y_cases five wall ground show ?thesis
    by blast
qed

text \<open>
  The spec's example: a body of the default settings that has moved to \<open>x = 605\<close> with
  \<open>v_x = 5\<close>, past the wall at \<open>x_max = 600\<close>.
\<close>

theorem boundary_bounce_witness:
  "(0::real) \<le> 600
   \<and> 600 < x_pos (Body_init 605 100 2 Settings_default (Some 5) None)
   \<and> v_x (Body_init 605 100 2 Settings_default (Some 5) None) = 5
   \<and> check_wall_collision 0 600 (Body_init 605 100 2 Settings_default (Some 5) None)
       = (True, Body_init 600 100 2 Settings_default (Some (- 5)) None)
   \<and> v_x (snd (check_wall_collision 0 600 (Body_init 605 100 2 Settings_default (Some 5) None)))
       = - 5
   \<and> x_pos (snd (check_wall_collision 0 600 (Body_init 605 100 2 Settings_default (Some 5) None)))
       = 600"
proof -
  let ?b = "Body_init 605 100 2 Settings_default (Some 5) None"
  have h: "(0::real) \<le> 600" by simp
  have x: "600 < x_pos ?b" and v: "v_x ?b = 5"
    by (simp_all add: Body_init_def)
  have eq: "?b\<lparr>x_pos := 600, v_x := - v_x ?b\<rparr>
      = Body_init 600 100 2 Settings_default (Some (- 5)) None"
    by (simp add: Body_init_def)
  from boundary_bounce [OF h h, of ?b] x
  have "check_wall_collision 0 600 ?b = (True, ?b\<lparr>x_pos := 600, v_x := - v_x ?b\<rparr>)"
    by blast
  then have c: "check_wall_collision 0 600 ?b
      = (True, Body_init 600 100 2 Settings_default (Some (- 5)) None)"
    by (simp only: eq)
  have "v_x (snd (check_wall_collision 0 600 ?b)) = - 5"
    and "x_pos (snd (check_wall_collision 0 600 ?b)) = 600"
    unfolding c by (simp_all add: Body_init_def)
  with h x v c show ?thesis
    by blast
qed

text \<open>
  C5. With the acceleration held at \<open>(ax, ay)\<close>, the velocity after \<open>n\<close> frames is the
  initial velocity plus \<open>a * d_t * n\<close>, in exact arithmetic. The equation holds for
  every timestep, so in particular for every positive one.
\<close>

theorem run_held_velocity:
  fixes b :: "('a::semiring_1) Body"
  shows "v_x (run_held n ax ay b) = v_x b + ax * d_t (settings b) * of_nat n
       \<and> v_y (run_held n ax ay b) = v_y b + ay * d_t (settings b) * of_nat n"
proof (induction n arbitrary: b)
  case 0
  show ?case by simp
next
  case (Suc n)
  let ?b' = "Body_update (apply_acceleration ax ay b)"
  have s: "settings ?b' = settings b"
    by (simp add: Body_update_eq apply_acceleration_def)
  have vx: "v_x ?b' = v_x b + ax * d_t (settings b)"
    and vy: "v_y ?b' = v_y b + ay * d_t (settings b)"
    by (simp_all add: Body_update_eq apply_acceleration_def)
  show ?case
    using Suc.IH [of ?b'] by (simp add: s vx vy algebra_simps)
qed

text \<open>
  C6. When the acceleration is zero at the start of the step, one call of
  \<open>Body.update\<close> leaves the velocity as it is and advances the position by
  \<open>velocity * d_t\<close>, once; after \<open>n\<close> such steps the velocity is still the initial one
  and the position is \<open>position0 + v0 * d_t * n\<close>, in exact arithmetic.
\<close>

theorem zero_force_linear_motion:
  fixes b :: "('a::semiring_1) Body"
  assumes "a_x b = 0" and "a_y b = 0"
  shows "v_x (Body_update b) = v_x b \<and> v_y (Body_update b) = v_y b
       \<and> x_pos (Body_update b) = x_pos b + v_x b * d_t (settings b)
       \<and> y_pos (Body_update b) = y_pos b + v_y b * d_t (settings b)
       \<and> v_x ((Body_update ^^ n) b) = v_x b \<and> v_y ((Body_update ^^ n) b) = v_y b
       \<and> x_pos ((Body_update ^^ n) b) = x_pos b + v_x b * d_t (settings b) * of_nat n
       \<and> y_pos ((Body_update ^^ n) b) = y_pos b + v_y b * d_t (settings b) * of_nat n"
proof -
  have one: "Body_update c = c\<lparr>x_pos := x_pos c + v_x c * d_t (settings c),
                           y_pos := y_pos c + v_y c * d_t (settings c)\<rparr>"
    if "a_x c = 0" "a_y c = 0" for c :: "'a Body"
    using that by (simp add: Body_update_eq)
  have iter: "(Body_update ^^ n) b = b\<lparr>x_pos := x_pos b + v_x b * d_t (settings b) * of_nat n,
                           y_pos := y_pos b + v_y b * d_t (settings b) * of_nat n\<rparr>"
  proof (induction n)
    case 0
    show ?case by simp
  next
    case (Suc n)
    show ?case
      by (simp add: Suc.IH one assms algebra_simps)
  qed
  show ?thesis
    by (simp add: iter one assms)
qed

text \<open>
  A fresh body with velocity \<open>(3, 4)\<close> and the default timestep \<open>1 / 60\<close>: sixty steps
  with no force move it by \<open>(3, 4)\<close>.
\<close>

theorem zero_force_linear_motion_witness:
  "a_x (Body_init 10 20 2 Settings_default (Some 3) (Some 4)) = 0
   \<and> a_y (Body_init 10 20 2 Settings_default (Some 3) (Some 4)) = 0
   \<and> v_x ((Body_update ^^ 60) (Body_init 10 20 2 Settings_default (Some 3) (Some 4))) = 3
   \<and> v_y ((Body_update ^^ 60) (Body_init 10 20 2 Settings_default (Some 3) (Some 4))) = 4
   \<and> x_pos ((Body_update ^^ 60) (Body_init 10 20 2 Settings_default (Some 3) (Some 4))) = 13
   \<and> y_pos ((Body_update ^^ 60) (Body_init 10 20 2 Settings_default (Some 3) (Some 4))) = 24"
proof -
  let ?b = "Body_init 10 20 2 Settings_default (Some 3) (Some 4)"
  have h: "a_x ?b = 0" "a_y ?b = 0"
    by (simp_all add: Body_init_def)
  have f: "v_x ?b = 3" "v_y ?b = 4" "x_pos ?b = 10" "y_pos ?b = 20" "d_t (settings ?b) = 1 / 60"
    by (simp_all add: Body_init_def Settings_default_def)
  from zero_force_linear_motion [OF h, of 60] h show ?thesis
    unfolding f by simp
qed

text \<open>
  C7. The force and the integration validate nothing and handle nothing. For
  coincident positions (\<open>r = 0\<close>) the force computation is a division by zero, and
  so is the update that calls it; for a body of mass zero the conversion
  \<open>a = f / mass\<close> is a division by zero. With distinct positions the force is a value,
  and with distinct positions and a mass other than zero the update is a value: no
  error is reachable. The \<open>ValueError\<close> of \<open>normalize\<close> is never raised, since the
  division by \<open>r2\<close> has raised before it. \<open>Body.update\<close> divides nothing and is a
  total function of the state.
\<close>

theorem unguarded_divisions:
  "(pos a = pos b \<longrightarrow> force_vec_due_to G a b = Inl ZeroDivisionError)
 \<and> (pos a \<noteq> pos b \<longrightarrow> (\<exists>f. force_vec_due_to G a b = Inr f))
 \<and> force_vec_due_to G a b \<noteq> Inl ValueError
 \<and> (pos a = pos sun \<longrightarrow> CelestialBody_update G d_T sun a = Inl ZeroDivisionError)
 \<and> (pos a \<noteq> pos sun \<and> mass_cb a = 0 \<longrightarrow>
       CelestialBody_update G d_T sun a = Inl ZeroDivisionError)
 \<and> (pos a \<noteq> pos sun \<and> mass_cb a \<noteq> 0 \<longrightarrow>
       (\<exists>a'. CelestialBody_update G d_T sun a = Inr a'))"
proof -
  have force: "force_vec_due_to G a c \<noteq> Inl ValueError" for c
  proof (cases "pos a = pos c")
    case True
    then show ?thesis by (simp add: force_vec_due_to_coincident)
  next
    case False
    then show ?thesis by (simp add: force_vec_due_to_distinct)
  qed
  have upd0: "CelestialBody_update G d_T sun a = Inl ZeroDivisionError"
    if "pos a \<noteq> pos sun" "mass_cb a = 0"
    using that
    by (simp add: CelestialBody_update_def force_vec_due_to_distinct vec_truediv_def)
  have upd: "\<exists>a'. CelestialBody_update G d_T sun a = Inr a'"
    if "pos a \<noteq> pos sun" "mass_cb a \<noteq> 0"
    using that
    by (simp add: CelestialBody_update_def force_vec_due_to_distinct vec_truediv_def Let_def)
  show ?thesis
    using force upd0 upd
    by (simp add: force_vec_due_to_coincident force_vec_due_to_distinct
        CelestialBody_update_def)
qed

text \<open>
  The example bodies: the body at \<open>(2, 0)\<close> against itself, against the body at the
  origin with its mass 3, and with mass zero.
\<close>

theorem unguarded_divisions_witness:
  "force_vec_due_to 1 \<lparr>pos = Vector2 2 0, vel = Vector2 0 1, mass_cb = 3\<rparr>
       \<lparr>pos = Vector2 2 0, vel = Vector2 0 0, mass_cb = 2\<rparr> = Inl ZeroDivisionError
   \<and> CelestialBody_update 1 1 \<lparr>pos = Vector2 2 0, vel = Vector2 0 0, mass_cb = 2\<rparr>
       \<lparr>pos = Vector2 2 0, vel = Vector2 0 1, mass_cb = 3\<rparr> = Inl ZeroDivisionError
   \<and> CelestialBody_update 1 1 \<lparr>pos = Vector2 0 0, vel = Vector2 0 0, mass_cb = 2\<rparr>
       \<lparr>pos = Vector2 2 0, vel = Vector2 0 1, mass_cb = 0\<rparr> = Inl ZeroDivisionError
   \<and> (\<exists>f. force_vec_due_to 1 \<lparr>pos = Vector2 2 0, vel = Vector2 0 1, mass_cb = 3\<rparr>
       \<lparr>pos = Vector2 0 0, vel = Vector2 0 0, mass_cb = 2\<rparr> = Inr f)
   \<and> (\<exists>p. CelestialBody_update 1 1 \<lparr>pos = Vector2 0 0, vel = Vector2 0 0, mass_cb = 2\<rparr>
       \<lparr>pos = Vector2 2 0, vel = Vector2 0 1, mass_cb = 3\<rparr> = Inr p)"
proof -
  let ?p = "\<lparr>pos = Vector2 2 0, vel = Vector2 0 1, mass_cb = 3\<rparr>"
  let ?massless = "\<lparr>pos = Vector2 2 0, vel = Vector2 0 1, mass_cb = 0\<rparr>"
  let ?same = "\<lparr>pos = Vector2 2 0, vel = Vector2 0 0, mass_cb = 2\<rparr>"
  let ?sun = "\<lparr>pos = Vector2 0 0, vel = Vector2 0 0, mass_cb = 2\<rparr>"
  have same: "pos ?p = pos ?same" by simp
  have far: "pos ?p \<noteq> pos ?sun" "mass_cb ?p \<noteq> 0" by simp_all
  have far0: "pos ?massless \<noteq> pos ?sun" "mass_cb ?massless = 0" by simp_all
  from unguarded_divisions [of ?p ?same 1 ?same 1] same
  have 1: "force_vec_due_to 1 ?p ?same = Inl ZeroDivisionError"
    and 2: "CelestialBody_update 1 1 ?same ?p = Inl ZeroDivisionError"
    by blast+
  from unguarded_divisions [of ?massless ?sun 1 ?sun 1] far0
  have 3: "CelestialBody_update 1 1 ?sun ?massless = Inl ZeroDivisionError"
    by blast
  from unguarded_divisions [of ?p ?sun 1 ?sun 1] far
  have 4: "\<exists>f. force_vec_due_to 1 ?p ?sun = Inr f"
    and 5: "\<exists>p. CelestialBody_update 1 1 ?sun ?p = Inr p"
    by blast+
  from 1 2 3 4 5 show ?thesis by blast
qed

text \<open>
  C8. \<open>Body.update\<close> changes the position, the velocity and the acceleration and
  nothing else: the result is the body with those six fields set, so \<open>mass\<close>,
  \<open>size\<close> and \<open>settings\<close> are as before, after one call and after any number of
  calls.
\<close>

theorem Body_update_frame:
  fixes b :: "('a::{plus,times,zero}) Body"
  shows "mass (Body_update b) = mass b
       \<and> size_px (Body_update b) = size_px b
       \<and> settings (Body_update b) = settings b
       \<and> Body_update b = b\<lparr>x_pos := x_pos (Body_update b), y_pos := y_pos (Body_update b),
                             v_x := v_x (Body_update b), v_y := v_y (Body_update b),
                             a_x := a_x (Body_update b), a_y := a_y (Body_update b)\<rparr>
       \<and> mass ((Body_update ^^ n) b) = mass b
       \<and> size_px ((Body_update ^^ n) b) = size_px b"
proof -
  have "mass ((Body_update ^^ n) b) = mass b \<and> size_px ((Body_update ^^ n) b) = size_px b"
    by (induction n) (simp_all add: Body_update_eq)
  then show ?thesis
    by (simp add: Body_update_eq)
qed

text \<open>
  C9. The force is antisymmetric: for two bodies at distinct positions, the force on
  \<open>a\<close> due to \<open>b\<close> is the negation of the force on \<open>b\<close> due to \<open>a\<close>, in exact
  arithmetic.
\<close>

theorem force_vec_due_to_antisymmetric:
  assumes "pos a \<noteq> pos b"
  shows "\<exists>f. force_vec_due_to G a b = Inr f \<and> force_vec_due_to G b a = Inr (vec_neg f)"
proof -
  let ?r = "distance_to (pos a) (pos b)"
  let ?k = "G * mass_cb a * mass_cb b / ?r\<^sup>2"
  have ba: "pos b \<noteq> pos a" using assms by simp
  have k: "G * mass_cb b * mass_cb a / (distance_to (pos b) (pos a))\<^sup>2 = ?k"
    by (simp add: distance_to_sym [of "pos b" "pos a"] mult.commute mult.left_commute)
  have "force_vec_due_to G b a =
          Inr (vec_mul (Vector2 (vec_x (vec_sub (pos a) (pos b)) / ?r)
                                (vec_y (vec_sub (pos a) (pos b)) / ?r)) ?k)"
    unfolding force_vec_due_to_distinct [OF ba, of G] k
    by (simp only: distance_to_sym [of "pos b" "pos a"])
  also have "\<dots> = Inr (vec_neg (vec_mul (Vector2 (vec_x (vec_sub (pos b) (pos a)) / ?r)
                                (vec_y (vec_sub (pos b) (pos a)) / ?r)) ?k))"
    by (simp only: vec_neg_def vec_mul_def vec_sub_def Vector2.sel
        swap_component [of "vec_x (pos a)" "vec_x (pos b)"]
        swap_component [of "vec_y (pos a)" "vec_y (pos b)"])
  finally show ?thesis
    using force_vec_due_to_distinct [OF assms, of G] by simp
qed

theorem force_vec_due_to_antisymmetric_witness:
  "pos \<lparr>pos = Vector2 0 0, vel = Vector2 0 0, mass_cb = 2\<rparr>
     \<noteq> pos \<lparr>pos = Vector2 2 0, vel = Vector2 0 0, mass_cb = 3\<rparr>
   \<and> force_vec_due_to 1 \<lparr>pos = Vector2 0 0, vel = Vector2 0 0, mass_cb = 2\<rparr>
       \<lparr>pos = Vector2 2 0, vel = Vector2 0 0, mass_cb = 3\<rparr> = Inr (Vector2 (3 / 2) 0)
   \<and> force_vec_due_to 1 \<lparr>pos = Vector2 2 0, vel = Vector2 0 0, mass_cb = 3\<rparr>
       \<lparr>pos = Vector2 0 0, vel = Vector2 0 0, mass_cb = 2\<rparr> = Inr (Vector2 (- (3 / 2)) 0)"
proof -
  let ?a = "\<lparr>pos = Vector2 0 0, vel = Vector2 0 0, mass_cb = 2\<rparr>"
  let ?b = "\<lparr>pos = Vector2 2 0, vel = Vector2 0 0, mass_cb = 3\<rparr>"
  have h: "pos ?a \<noteq> pos ?b" by simp
  from force_vec_due_to_antisymmetric [OF h, of 1] obtain f where
    ab: "force_vec_due_to 1 ?a ?b = Inr f" and ba: "force_vec_due_to 1 ?b ?a = Inr (vec_neg f)"
    by blast
  from ab have f: "f = Vector2 (3 / 2) 0"
    by (simp only: force_example sum.inject)
  from h ab ba show ?thesis
    unfolding f by (simp add: vec_neg_def)
qed

text \<open>
  C10. A newly constructed body has acceleration \<open>(0, 0)\<close>, and velocity zero in each
  component whose initial value the caller leaves out. So \<open>Body.update\<close> on a fresh
  body, before any force is applied, leaves its velocity as it is and moves its
  position by the initial velocity times \<open>d_t\<close>.
\<close>

theorem fresh_Body_update:
  fixes s :: "('a::semiring_0) Settings"
  shows "a_x (Body_init x0 y0 m s vx0 vy0) = 0
       \<and> a_y (Body_init x0 y0 m s vx0 vy0) = 0
       \<and> v_x (Body_init x0 y0 m s None vy0) = 0
       \<and> v_y (Body_init x0 y0 m s vx0 None) = 0
       \<and> v_x (Body_update (Body_init x0 y0 m s vx0 vy0)) = v_x (Body_init x0 y0 m s vx0 vy0)
       \<and> v_y (Body_update (Body_init x0 y0 m s vx0 vy0)) = v_y (Body_init x0 y0 m s vx0 vy0)
       \<and> x_pos (Body_update (Body_init x0 y0 m s vx0 vy0)) =
           x0 + v_x (Body_init x0 y0 m s vx0 vy0) * d_t s
       \<and> y_pos (Body_update (Body_init x0 y0 m s vx0 vy0)) =
           y0 + v_y (Body_init x0 y0 m s vx0 vy0) * d_t s"
  by (simp add: Body_init_def Body_update_eq)

end
